theory Spec2Isabelle
  imports Main
begin

section \<open>Python strings\<close>

text \<open>
  A Python \<open>str\<close> is a sequence of Unicode code points, so a string is modelled as a list
  of code points (natural numbers), not as a list of 8-bit characters: \<open>str.strip()\<close>
  removes code points above 255 as well (U+2003, U+3000, ...). \<open>cps\<close> turns an ASCII
  literal of the source into its code points.
\<close>

type_synonym pystr = "nat list"

definition cps :: "string \<Rightarrow> pystr" where
  "cps s = map of_char s"

text \<open>
  \<open>str.isspace\<close> on one code point, the test \<open>str.strip()\<close> without argument uses:
  the 29 code points CPython classifies as whitespace (bidirectional class WS, B or S,
  or general category Zs).
\<close>

definition isspace :: "nat \<Rightarrow> bool" where
  "isspace c \<longleftrightarrow>
     (0x09 \<le> c \<and> c \<le> 0x0D) \<or> (0x1C \<le> c \<and> c \<le> 0x20) \<or> c = 0x85 \<or> c = 0xA0 \<or>
     c = 0x1680 \<or> (0x2000 \<le> c \<and> c \<le> 0x200A) \<or> c = 0x2028 \<or> c = 0x2029 \<or>
     c = 0x202F \<or> c = 0x205F \<or> c = 0x3000"

text \<open>\<open>s.strip()\<close>: drop the whitespace at the left end, then at the right end.\<close>

definition strip :: "pystr \<Rightarrow> pystr" where
  "strip s = rev (dropWhile isspace (rev (dropWhile isspace s)))"

text \<open>\<open>s.startswith(p)\<close> and \<open>s.endswith(p)\<close>.\<close>

definition startswith :: "pystr \<Rightarrow> pystr \<Rightarrow> bool" where
  "startswith s p \<longleftrightarrow> take (length p) s = p"

definition endswith :: "pystr \<Rightarrow> pystr \<Rightarrow> bool" where
  "endswith s p \<longleftrightarrow> length p \<le> length s \<and> drop (length s - length p) s = p"

text \<open>
  The five characters of the literal \<open>'\n\r\t\x0b\x0c'\<close>, in its order: newline,
  carriage return, tab, vertical tab, form feed.
\<close>

definition control_characters :: pystr where
  "control_characters = [0x0A, 0x0D, 0x09, 0x0B, 0x0C]"

text \<open>The double quote \<open>'"'\<close> and the single quote \<open>"'"\<close> as one-character strings.\<close>

definition double_quote :: pystr where
  "double_quote = [0x22]"

definition single_quote :: pystr where
  "single_quote = [0x27]"

section \<open>Exceptions\<close>

text \<open>
  What a collaborator can raise, as far as \<open>except ImportError\<close> tells exceptions apart:
  \<open>ImportError\<close> (with its subclasses) or any other exception.
\<close>

datatype py_exn = ImportError | OtherException

text \<open>
  How a provider construction can fail. The first five are the \<open>ValueError\<close>s of the source,
  one constructor for each message; \<open>UnexpectedFormat\<close> carries the \<open>normalized_key[:10]\<close>
  its message quotes. \<open>Propagated\<close> is an exception of a collaborator that nothing catches.
\<close>

datatype error =
    MissingCredential
  | EmptyOrWhitespace
  | ControlCharacters
  | QuotedKey
  | UnexpectedFormat pystr
  | Propagated py_exn

section \<open>The validator\<close>

text \<open>
  \<open>_validate_api_key\<close>. The checks in the order of the source: empty or whitespace only,
  control characters in the raw string, then on the stripped string the surrounding quotes
  and the prefix.
\<close>

definition validate_api_key :: "pystr \<Rightarrow> error + pystr" where
  "validate_api_key api_key =
     (if api_key = [] \<or> strip api_key = [] then Inl EmptyOrWhitespace
      else if list_ex (\<lambda>char. char \<in> set api_key) control_characters
        then Inl ControlCharacters
      else let normalized_key = strip api_key in
        if (startswith normalized_key double_quote \<and> endswith normalized_key double_quote) \<or>
           (startswith normalized_key single_quote \<and> endswith normalized_key single_quote)
          then Inl QuotedKey
        else if \<not> startswith normalized_key (cps ''sk-ant-'')
          then Inl (UnexpectedFormat (take 10 normalized_key))
        else Inr normalized_key)"

section \<open>The collaborators\<close>

text \<open>
  The credential store (\<open>aden_tools.credentials.CredentialStoreAdapter\<close>), the process
  environment and the delegate (\<open>LiteLLMProvider\<close>) are outside this file; they are
  parameters of the model. Each call of a collaborator either returns or raises.
  \<open>get\<close> may return \<open>None\<close>.
\<close>

record credential_store =
  is_available :: "pystr \<Rightarrow> py_exn + bool"
  get :: "pystr \<Rightarrow> py_exn + pystr option"

text \<open>
  \<open>import_CredentialStoreAdapter\<close> is the outcome of
  \<open>from aden_tools.credentials import CredentialStoreAdapter\<close>,
  \<open>CredentialStoreAdapter_default\<close> the outcome of \<open>CredentialStoreAdapter.default()\<close>,
  \<open>environ\<close> is \<open>os.environ\<close>, and \<open>LiteLLMProvider model api_key\<close> the outcome of
  constructing the delegate.
\<close>

record 'd world =
  import_CredentialStoreAdapter :: "py_exn + unit"
  CredentialStoreAdapter_default :: "py_exn + credential_store"
  environ :: "pystr \<rightharpoonup> pystr"
  LiteLLMProvider :: "pystr \<Rightarrow> pystr \<Rightarrow> py_exn + 'd"

text \<open>The calls made on the collaborators, logged in the order they happen.\<close>

datatype event =
    ImportAdapter
  | CallDefault
  | CallIsAvailable pystr
  | CallGet pystr
  | EnvironGet pystr
  | ConstructDelegate pystr pystr

section \<open>The resolver\<close>

text \<open>How a block of statements ends: with a \<open>return\<close>, by reaching its end, or by raising.\<close>

datatype 'a flow = Return 'a | Fallthrough | Raise py_exn

text \<open>The body of the \<open>try\<close> in \<open>_get_api_key_from_credential_store\<close>.\<close>

definition try_block :: "'d world \<Rightarrow> pystr option flow \<times> event list" where
  "try_block w =
     (case import_CredentialStoreAdapter w of
        Inl e \<Rightarrow> (Raise e, [ImportAdapter])
      | Inr _ \<Rightarrow>
         (case CredentialStoreAdapter_default w of
            Inl e \<Rightarrow> (Raise e, [ImportAdapter, CallDefault])
          | Inr creds \<Rightarrow>
             (case is_available creds (cps ''anthropic'') of
                Inl e \<Rightarrow>
                  (Raise e, [ImportAdapter, CallDefault, CallIsAvailable (cps ''anthropic'')])
              | Inr available \<Rightarrow>
                  if available then
                    (case get creds (cps ''anthropic'') of
                       Inl e \<Rightarrow>
                         (Raise e, [ImportAdapter, CallDefault,
                            CallIsAvailable (cps ''anthropic''), CallGet (cps ''anthropic'')])
                     | Inr v \<Rightarrow>
                         (Return v, [ImportAdapter, CallDefault,
                            CallIsAvailable (cps ''anthropic''), CallGet (cps ''anthropic'')]))
                  else
                    (Fallthrough,
                       [ImportAdapter, CallDefault, CallIsAvailable (cps ''anthropic'')]))))"

text \<open>
  \<open>_get_api_key_from_credential_store\<close>: the \<open>try\<close> block, \<open>except ImportError: pass\<close>,
  and \<open>os.environ.get("ANTHROPIC_API_KEY")\<close> when the block has not returned. Any other
  exception leaves the function.
\<close>

definition get_api_key_from_credential_store ::
  "'d world \<Rightarrow> (py_exn + pystr option) \<times> event list" where
  "get_api_key_from_credential_store w =
     (case try_block w of
        (Return v, t) \<Rightarrow> (Inr v, t)
      | (Fallthrough, t) \<Rightarrow>
          (Inr (environ w (cps ''ANTHROPIC_API_KEY'')),
           t @ [EnvironGet (cps ''ANTHROPIC_API_KEY'')])
      | (Raise ImportError, t) \<Rightarrow>
          (Inr (environ w (cps ''ANTHROPIC_API_KEY'')),
           t @ [EnvironGet (cps ''ANTHROPIC_API_KEY'')])
      | (Raise OtherException, t) \<Rightarrow> (Inl OtherException, t))"

text \<open>Python's \<open>not v\<close> for \<open>v: str | None\<close>: true for \<open>None\<close> and for the empty string.\<close>

definition py_not :: "pystr option \<Rightarrow> bool" where
  "py_not v = (case v of None \<Rightarrow> True | Some s \<Rightarrow> s = [])"

text \<open>
  The expression \<open>api_key or _get_api_key_from_credential_store()\<close> of \<open>__init__\<close>: the
  right operand is evaluated only when the left one is falsy.
\<close>

definition raw_api_key :: "'d world \<Rightarrow> pystr option \<Rightarrow> (py_exn + pystr option) \<times> event list" where
  "raw_api_key w api_key =
     (if \<not> py_not api_key then (Inr api_key, [])
      else get_api_key_from_credential_store w)"

section \<open>The provider\<close>

record 'd AnthropicProvider =
  self_api_key :: pystr
  self_model :: pystr
  self_provider :: 'd

definition default_model :: pystr where
  "default_model = cps ''claude-haiku-4-5-20251001''"

text \<open>
  \<open>AnthropicProvider.__init__\<close>: resolve the raw key, fail when it is falsy, validate it,
  construct the delegate with the normalized key.
\<close>

definition AnthropicProvider_init ::
  "'d world \<Rightarrow> pystr option \<Rightarrow> pystr \<Rightarrow> (error + 'd AnthropicProvider) \<times> event list" where
  "AnthropicProvider_init w api_key model =
     (case raw_api_key w api_key of
        (Inl e, t) \<Rightarrow> (Inl (Propagated e), t)
      | (Inr raw, t) \<Rightarrow>
          if py_not raw then (Inl MissingCredential, t)
          else
            (case raw of
               None \<Rightarrow> (Inl MissingCredential, t)
             | Some key \<Rightarrow>
                (case validate_api_key key of
                   Inl e \<Rightarrow> (Inl e, t)
                 | Inr normalized \<Rightarrow>
                    (case LiteLLMProvider w model normalized of
                       Inl e \<Rightarrow> (Inl (Propagated e), t @ [ConstructDelegate model normalized])
                     | Inr d \<Rightarrow>
                        (Inr \<lparr>self_api_key = normalized, self_model = model, self_provider = d\<rparr>,
                         t @ [ConstructDelegate model normalized])))))"

section \<open>Example worlds\<close>

text \<open>
  Concrete collaborators, for evaluating the model. \<open>example_store available v\<close> answers
  \<open>is_available\<close> with \<open>available\<close> and \<open>get\<close> with \<open>v\<close>, for every name.
  \<open>world_with_store available v e\<close> has that store and \<open>e\<close> under \<open>ANTHROPIC_API_KEY\<close>
  in the environment (nothing when \<open>e\<close> is \<open>None\<close>); in \<open>world_no_store e\<close> the import
  of the store raises \<open>ImportError\<close>. The delegate is the unit value.
\<close>

definition example_store :: "bool \<Rightarrow> pystr option \<Rightarrow> credential_store" where
  "example_store available v =
     \<lparr>is_available = (\<lambda>name. Inr available), get = (\<lambda>name. Inr v)\<rparr>"

definition world_with_store :: "bool \<Rightarrow> pystr option \<Rightarrow> pystr option \<Rightarrow> unit world" where
  "world_with_store available v e =
     \<lparr>import_CredentialStoreAdapter = Inr (),
      CredentialStoreAdapter_default = Inr (example_store available v),
      environ = (\<lambda>name. if name = cps ''ANTHROPIC_API_KEY'' then e else None),
      LiteLLMProvider = (\<lambda>model key. Inr ())\<rparr>"

definition world_no_store :: "pystr option \<Rightarrow> unit world" where
  "world_no_store e =
     \<lparr>import_CredentialStoreAdapter = Inl ImportError,
      CredentialStoreAdapter_default = Inl ImportError,
      environ = (\<lambda>name. if name = cps ''ANTHROPIC_API_KEY'' then e else None),
      LiteLLMProvider = (\<lambda>model key. Inr ())\<rparr>"

section \<open>Properties of \<open>strip\<close>, \<open>startswith\<close> and \<open>endswith\<close>\<close>

lemma dropWhile_all_iff: "(\<forall>c\<in>set (dropWhile P s). P c) \<longleftrightarrow> (\<forall>c\<in>set s. P c)"
proof
  assume a: "\<forall>c\<in>set (dropWhile P s). P c"
  have "dropWhile P s = []"
  proof (rule ccontr)
    assume n: "dropWhile P s \<noteq> []"
    then have "\<not> P (hd (dropWhile P s))" by (rule hd_dropWhile)
    moreover have "hd (dropWhile P s) \<in> set (dropWhile P s)" using n by simp
    ultimately show False using a by blast
  qed
  then show "\<forall>c\<in>set s. P c" by (simp add: dropWhile_eq_Nil_conv)
next
  assume "\<forall>c\<in>set s. P c"
  then show "\<forall>c\<in>set (dropWhile P s). P c" by (meson set_dropWhileD)
qed

lemma strip_Nil_iff: "strip s = [] \<longleftrightarrow> (\<forall>c\<in>set s. isspace c)"
proof -
  have "strip s = [] \<longleftrightarrow> (\<forall>c\<in>set (rev (dropWhile isspace s)). isspace c)"
    by (simp add: strip_def dropWhile_eq_Nil_conv)
  also have "\<dots> \<longleftrightarrow> (\<forall>c\<in>set s. isspace c)"
    using dropWhile_all_iff [of isspace s] by simp
  finally show ?thesis .
qed

lemma strip_decomp:
  "s = takeWhile isspace s @ strip s @ rev (takeWhile isspace (rev (dropWhile isspace s)))"
proof -
  let ?d = "dropWhile isspace s"
  have "strip s @ rev (takeWhile isspace (rev ?d)) =
      rev (takeWhile isspace (rev ?d) @ dropWhile isspace (rev ?d))"
    by (simp only: strip_def rev_append)
  also have "\<dots> = rev (rev ?d)" by (simp only: takeWhile_dropWhile_id)
  finally have "?d = strip s @ rev (takeWhile isspace (rev ?d))" by simp
  moreover have "s = takeWhile isspace s @ ?d" by simp
  ultimately show ?thesis by simp
qed

lemma set_strip: "set (strip s) \<subseteq> set s"
  by (auto simp: strip_def dest!: set_dropWhileD)

lemma strip_ends:
  assumes "strip s \<noteq> []"
  shows "\<not> isspace (hd (strip s))" and "\<not> isspace (last (strip s))"
proof -
  let ?d = "dropWhile isspace s"
  let ?e = "dropWhile isspace (rev ?d)"
  from assms have e: "?e \<noteq> []" by (simp add: strip_def)
  have d: "?d \<noteq> []"
  proof
    assume "?d = []"
    then have "?e = []" by (simp only: rev.simps dropWhile.simps)
    with e show False by simp
  qed
  have "last (strip s) = hd ?e" using e by (simp add: strip_def last_rev)
  then show "\<not> isspace (last (strip s))" using hd_dropWhile [OF e] by simp
  have "rev ?d = takeWhile isspace (rev ?d) @ ?e" by simp
  then have "last (rev ?d) = last ?e" using e by (metis last_appendR)
  then have "hd (strip s) = hd ?d" using d e by (simp add: strip_def hd_rev last_rev)
  then show "\<not> isspace (hd (strip s))" using hd_dropWhile [OF d] by simp
qed

lemma strip_fixed:
  assumes "s \<noteq> []" "\<not> isspace (hd s)" "\<not> isspace (last s)"
  shows "strip s = s"
proof -
  have 1: "dropWhile isspace s = s" using assms(1,2) by (cases s) simp_all
  have "rev s \<noteq> []" "\<not> isspace (hd (rev s))" using assms(1,3) by (simp_all add: hd_rev)
  then have "dropWhile isspace (rev s) = rev s" by (cases "rev s") simp_all
  with 1 show ?thesis by (simp add: strip_def)
qed

lemma strip_strip: "strip (strip s) = strip s"
proof (cases "strip s = []")
  case True
  have "strip [] = []" by (simp add: strip_def)
  with True show ?thesis by simp
next
  case False
  then show ?thesis using strip_ends [OF False] by (simp add: strip_fixed)
qed

lemma startswith_single: "s \<noteq> [] \<Longrightarrow> startswith s [q] \<longleftrightarrow> hd s = q"
  by (cases s) (simp_all add: startswith_def)

lemma endswith_single: "s \<noteq> [] \<Longrightarrow> endswith s [q] \<longleftrightarrow> last s = q"
proof -
  assume n: "s \<noteq> []"
  then have "s = butlast s @ [last s]" by simp
  then have "drop (length (butlast s)) s = drop (length (butlast s)) (butlast s @ [last s])"
    by simp
  then have "drop (length s - Suc 0) s = [last s]" by simp
  moreover have "Suc 0 \<le> length s" using n by (cases s) simp_all
  ultimately show ?thesis by (simp add: endswith_def)
qed

lemma control_characters_ex:
  "list_ex (\<lambda>char. char \<in> set s) control_characters \<longleftrightarrow> set s \<inter> {0x0A, 0x0D, 0x09, 0x0B, 0x0C} \<noteq> {}"
  by (auto simp: control_characters_def)

section \<open>When the validator succeeds\<close>

lemma validate_ok:
  assumes "strip s \<noteq> []"
    and "set s \<inter> {0x0A, 0x0D, 0x09, 0x0B, 0x0C} = {}"
    and "\<not> (hd (strip s) = 0x22 \<and> last (strip s) = 0x22)"
    and "\<not> (hd (strip s) = 0x27 \<and> last (strip s) = 0x27)"
    and "startswith (strip s) (cps ''sk-ant-'')"
  shows "validate_api_key s = Inr (strip s)"
proof -
  from assms(1) have "s \<noteq> []" by (auto simp: strip_def)
  moreover have "\<not> list_ex (\<lambda>char. char \<in> set s) control_characters"
    using assms(2) by (simp only: control_characters_ex simp_thms)
  moreover have "\<not> (startswith (strip s) double_quote \<and> endswith (strip s) double_quote)"
    using assms(1,3) by (simp add: double_quote_def startswith_single endswith_single)
  moreover have "\<not> (startswith (strip s) single_quote \<and> endswith (strip s) single_quote)"
    using assms(1,4) by (simp add: single_quote_def startswith_single endswith_single)
  ultimately show ?thesis using assms(1,5) by (simp add: validate_api_key_def Let_def)
qed

lemma validate_Inr_iff:
  "validate_api_key s = Inr k \<longleftrightarrow>
     k = strip s \<and> strip s \<noteq> [] \<and> set s \<inter> {0x0A, 0x0D, 0x09, 0x0B, 0x0C} = {} \<and>
     \<not> (hd (strip s) = 0x22 \<and> last (strip s) = 0x22) \<and>
     \<not> (hd (strip s) = 0x27 \<and> last (strip s) = 0x27) \<and>
     startswith (strip s) (cps ''sk-ant-'')"
proof (cases "strip s = []")
  case True
  then show ?thesis by (simp add: validate_api_key_def)
next
  case False
  then have "s \<noteq> []" by (auto simp: strip_def)
  with False show ?thesis
    by (auto simp: validate_api_key_def Let_def control_characters_ex double_quote_def
        single_quote_def startswith_single endswith_single simp del: Int_insert_right)
qed

section \<open>Claims about the validator\<close>

text \<open>
  C3. For every string that is non-empty after trimming, contains none of the control
  characters newline, carriage return, tab, vertical tab and form feed, whose trimmed form
  does not both start and end with the same quote character, and whose trimmed form starts
  with \<open>sk-ant-\<close>, the validator succeeds and returns exactly the trimmed input: the input
  is the result between a run of whitespace on the left and one on the right, and the result
  neither starts nor ends with whitespace.
\<close>

theorem validate_api_key_accepts:
  assumes "strip s \<noteq> []"
    and "set s \<inter> {0x0A, 0x0D, 0x09, 0x0B, 0x0C} = {}"
    and "\<not> (hd (strip s) = 0x22 \<and> last (strip s) = 0x22)"
    and "\<not> (hd (strip s) = 0x27 \<and> last (strip s) = 0x27)"
    and "startswith (strip s) (cps ''sk-ant-'')"
  shows "validate_api_key s = Inr (strip s) \<and>
         (\<exists>l r. s = l @ strip s @ r \<and> (\<forall>c\<in>set l. isspace c) \<and> (\<forall>c\<in>set r. isspace c)) \<and>
         \<not> isspace (hd (strip s)) \<and> \<not> isspace (last (strip s))"
proof -
  have "validate_api_key s = Inr (strip s)"
    using assms by (rule validate_ok)
  moreover have "\<exists>l r. s = l @ strip s @ r \<and> (\<forall>c\<in>set l. isspace c) \<and> (\<forall>c\<in>set r. isspace c)"
  proof (intro exI conjI)
    show "s = takeWhile isspace s @ strip s @
        rev (takeWhile isspace (rev (dropWhile isspace s)))"
      by (rule strip_decomp)
    show "\<forall>c\<in>set (takeWhile isspace s). isspace c"
      by (meson set_takeWhileD)
    show "\<forall>c\<in>set (rev (takeWhile isspace (rev (dropWhile isspace s)))). isspace c"
      using set_takeWhileD [of _ isspace "rev (dropWhile isspace s)"] by simp
  qed
  ultimately show ?thesis using strip_ends [OF assms(1)] by simp
qed

text \<open>The input \<open>"  sk-ant-abc123  "\<close> satisfies the hypotheses of C3 and validates to \<open>"sk-ant-abc123"\<close>.\<close>

theorem validate_api_key_accepts_witness:
  "strip (cps ''  sk-ant-abc123  '') \<noteq> [] \<and>
   set (cps ''  sk-ant-abc123  '') \<inter> {0x0A, 0x0D, 0x09, 0x0B, 0x0C} = {} \<and>
   startswith (strip (cps ''  sk-ant-abc123  '')) (cps ''sk-ant-'') \<and>
   validate_api_key (cps ''  sk-ant-abc123  '') = Inr (cps ''sk-ant-abc123'')"
proof -
  have st: "strip (cps ''  sk-ant-abc123  '') = cps ''sk-ant-abc123''"
    by (simp add: strip_def cps_def isspace_def)
  have h1: "strip (cps ''  sk-ant-abc123  '') \<noteq> []"
    by (simp add: st) (simp add: cps_def)
  have h2: "set (cps ''  sk-ant-abc123  '') \<inter> {0x0A, 0x0D, 0x09, 0x0B, 0x0C} = {}"
    by (simp add: cps_def)
  have h3: "\<not> (hd (strip (cps ''  sk-ant-abc123  '')) = 0x22 \<and>
      last (strip (cps ''  sk-ant-abc123  '')) = 0x22)"
    by (simp add: st) (simp add: cps_def)
  have h4: "\<not> (hd (strip (cps ''  sk-ant-abc123  '')) = 0x27 \<and>
      last (strip (cps ''  sk-ant-abc123  '')) = 0x27)"
    by (simp add: st) (simp add: cps_def)
  have h5: "startswith (strip (cps ''  sk-ant-abc123  '')) (cps ''sk-ant-'')"
    by (simp add: st) (simp add: cps_def startswith_def)
  from validate_api_key_accepts [OF h1 h2 h3 h4 h5]
  have "validate_api_key (cps ''  sk-ant-abc123  '') = Inr (strip (cps ''  sk-ant-abc123  ''))"
    by (rule conjunct1)
  with h1 h2 h5 show ?thesis by (simp only: st simp_thms)
qed

text \<open>
  C5. For every string that is not whitespace-only and contains at least one of the control
  characters newline, carriage return, tab, vertical tab and form feed anywhere in the raw
  string, the validator fails with \<open>ControlCharacters\<close>. In particular
  \<open>"sk-ant-abc\n"\<close> fails so, although trimming it gives \<open>"sk-ant-abc"\<close>.
\<close>

theorem control_characters_rejected:
  "(\<not> (\<forall>c\<in>set s. isspace c) \<and> set s \<inter> {0x0A, 0x0D, 0x09, 0x0B, 0x0C} \<noteq> {}
      \<longrightarrow> validate_api_key s = Inl ControlCharacters) \<and>
   validate_api_key (cps ''sk-ant-abc'' @ [0x0A]) = Inl ControlCharacters \<and>
   strip (cps ''sk-ant-abc'' @ [0x0A]) = cps ''sk-ant-abc''"
proof (intro conjI impI)
  assume a: "\<not> (\<forall>c\<in>set s. isspace c) \<and> set s \<inter> {0x0A, 0x0D, 0x09, 0x0B, 0x0C} \<noteq> {}"
  then have "strip s \<noteq> []" by (simp only: strip_Nil_iff simp_thms)
  moreover from this have "s \<noteq> []" by (auto simp: strip_def)
  moreover have "list_ex (\<lambda>char. char \<in> set s) control_characters"
    using a by (simp only: control_characters_ex simp_thms)
  ultimately show "validate_api_key s = Inl ControlCharacters"
    by (simp add: validate_api_key_def)
next
  show "validate_api_key (cps ''sk-ant-abc'' @ [0x0A]) = Inl ControlCharacters"
    by (simp add: validate_api_key_def strip_def cps_def isspace_def control_characters_def)
next
  show "strip (cps ''sk-ant-abc'' @ [0x0A]) = cps ''sk-ant-abc''"
    by (simp add: strip_def cps_def isspace_def)
qed

text \<open>A key with a tab in its interior satisfies the hypotheses of C5.\<close>

theorem control_characters_rejected_witness:
  "\<not> (\<forall>c\<in>set (cps ''sk-ant-'' @ [0x09] @ cps ''abc''). isspace c) \<and>
   set (cps ''sk-ant-'' @ [0x09] @ cps ''abc'') \<inter> {0x0A, 0x0D, 0x09, 0x0B, 0x0C} \<noteq> {} \<and>
   validate_api_key (cps ''sk-ant-'' @ [0x09] @ cps ''abc'') = Inl ControlCharacters"
proof -
  have h: "\<not> (\<forall>c\<in>set (cps ''sk-ant-'' @ [0x09] @ cps ''abc''). isspace c) \<and>
      set (cps ''sk-ant-'' @ [0x09] @ cps ''abc'') \<inter> {0x0A, 0x0D, 0x09, 0x0B, 0x0C} \<noteq> {}"
    by (simp add: cps_def isspace_def)
  from control_characters_rejected [of "cps ''sk-ant-'' @ [0x09] @ cps ''abc''"]
  have "\<not> (\<forall>c\<in>set (cps ''sk-ant-'' @ [0x09] @ cps ''abc''). isspace c) \<and>
      set (cps ''sk-ant-'' @ [0x09] @ cps ''abc'') \<inter> {0x0A, 0x0D, 0x09, 0x0B, 0x0C} \<noteq> {}
      \<longrightarrow> validate_api_key (cps ''sk-ant-'' @ [0x09] @ cps ''abc'') = Inl ControlCharacters"
    by (rule conjunct1)
  with h show ?thesis by blast
qed

text \<open>
  C8. The first check takes precedence: every string that is empty or consists only of
  whitespace characters fails with \<open>EmptyOrWhitespace\<close>, also when it contains control
  characters, as \<open>"\n\t"\<close> does.
\<close>

theorem whitespace_only_rejected_first:
  "((\<forall>c\<in>set s. isspace c) \<longrightarrow> validate_api_key s = Inl EmptyOrWhitespace) \<and>
   validate_api_key [] = Inl EmptyOrWhitespace \<and>
   validate_api_key [0x0A, 0x09] = Inl EmptyOrWhitespace"
proof (intro conjI impI)
  assume "\<forall>c\<in>set s. isspace c"
  then have "strip s = []" by (simp only: strip_Nil_iff)
  then show "validate_api_key s = Inl EmptyOrWhitespace"
    by (simp add: validate_api_key_def)
next
  show "validate_api_key [] = Inl EmptyOrWhitespace"
    by (simp add: validate_api_key_def)
next
  show "validate_api_key [0x0A, 0x09] = Inl EmptyOrWhitespace"
    by code_simp
qed

text \<open>
  A whitespace-only string with a carriage return and a form feed in it (and U+2003, a
  whitespace character outside ASCII) satisfies the hypothesis of C8.
\<close>

theorem whitespace_only_rejected_first_witness:
  "isspace 0x20 \<and> isspace 0x0D \<and> isspace 0x2003 \<and> isspace 0x0C \<and>
   set ([0x20, 0x0D, 0x2003, 0x0C]::pystr) \<inter> {0x0A, 0x0D, 0x09, 0x0B, 0x0C} \<noteq> {} \<and>
   validate_api_key [0x20, 0x0D, 0x2003, 0x0C] = Inl EmptyOrWhitespace"
proof -
  have sp: "isspace 0x20" "isspace 0x0D" "isspace 0x2003" "isspace 0x0C"
    by (simp_all add: isspace_def)
  then have h: "\<forall>c\<in>set [0x20, 0x0D, 0x2003, 0x0C]. isspace c"
    by simp
  from whitespace_only_rejected_first [of "[0x20, 0x0D, 0x2003, 0x0C]"]
  have "(\<forall>c\<in>set [0x20, 0x0D, 0x2003, 0x0C]. isspace c) \<longrightarrow>
      validate_api_key [0x20, 0x0D, 0x2003, 0x0C] = Inl EmptyOrWhitespace"
    by (rule conjunct1)
  with h have "validate_api_key [0x20, 0x0D, 0x2003, 0x0C] = Inl EmptyOrWhitespace" by blast
  moreover have "set [0x20, 0x0D, 0x2003, 0x0C] \<inter> {0x0A, 0x0D, 0x09, 0x0B, 0x0C} \<noteq> ({}::nat set)"
    by simp
  ultimately show ?thesis using sp by (intro conjI)
qed

text \<open>
  C7. The validator is idempotent: when it succeeds on \<open>s\<close> with output \<open>k\<close>, it
  succeeds on \<open>k\<close> and returns \<open>k\<close> unchanged.
\<close>

theorem validate_api_key_idempotent:
  assumes "validate_api_key s = Inr k"
  shows "validate_api_key k = Inr k"
proof -
  from assms [unfolded validate_Inr_iff] have k: "k = strip s" and ne: "strip s \<noteq> []"
    and cc: "set s \<inter> {0x0A, 0x0D, 0x09, 0x0B, 0x0C} = {}"
    and dq: "\<not> (hd (strip s) = 0x22 \<and> last (strip s) = 0x22)"
    and sq: "\<not> (hd (strip s) = 0x27 \<and> last (strip s) = 0x27)"
    and pre: "startswith (strip s) (cps ''sk-ant-'')"
    by (blast+)
  have ss: "strip (strip s) = strip s" by (rule strip_strip)
  have cck: "set (strip s) \<inter> {0x0A, 0x0D, 0x09, 0x0B, 0x0C} = {}"
    using cc set_strip [of s] by blast
  have "validate_api_key (strip s) = Inr (strip (strip s))"
    by (rule validate_ok) (simp_all only: ss ne cck dq sq pre simp_thms)
  then show ?thesis by (simp only: ss k)
qed

text \<open>
  The output of the validator on \<open>"  sk-ant-abc123  "\<close> validates to itself.
\<close>

theorem validate_api_key_idempotent_witness:
  "validate_api_key (cps ''  sk-ant-abc123  '') = Inr (cps ''sk-ant-abc123'') \<and>
   validate_api_key (cps ''sk-ant-abc123'') = Inr (cps ''sk-ant-abc123'')"
proof -
  have h: "validate_api_key (cps ''  sk-ant-abc123  '') = Inr (cps ''sk-ant-abc123'')"
    by (simp add: validate_api_key_def strip_def isspace_def cps_def control_characters_def
        startswith_def endswith_def double_quote_def single_quote_def)
  from validate_api_key_idempotent [OF h] h show ?thesis by (intro conjI)
qed

section \<open>Claims about the provider\<close>

text \<open>
  C6. The key stored in a successfully constructed provider, whatever the explicit key, the
  store and the environment were, is non-empty, contains none of the control characters
  newline, carriage return, tab, vertical tab and form feed, has no whitespace at either end
  (so stripping leaves it unchanged), does not both start and end with the same quote
  character, and starts with \<open>sk-ant-\<close>.
\<close>

theorem constructed_key_invariant:
  assumes "fst (AnthropicProvider_init w api_key model) = Inr p"
  shows "self_api_key p \<noteq> [] \<and>
         set (self_api_key p) \<inter> {0x0A, 0x0D, 0x09, 0x0B, 0x0C} = {} \<and>
         \<not> isspace (hd (self_api_key p)) \<and> \<not> isspace (last (self_api_key p)) \<and>
         strip (self_api_key p) = self_api_key p \<and>
         \<not> (hd (self_api_key p) = 0x22 \<and> last (self_api_key p) = 0x22) \<and>
         \<not> (hd (self_api_key p) = 0x27 \<and> last (self_api_key p) = 0x27) \<and>
         startswith (self_api_key p) (cps ''sk-ant-'')"
proof -
  obtain r t where rt: "raw_api_key w api_key = (r, t)"
    by (cases "raw_api_key w api_key")
  from assms obtain key where v: "validate_api_key key = Inr (self_api_key p)"
    unfolding AnthropicProvider_init_def rt
    by (auto split: sum.splits if_splits option.splits)
  from v [unfolded validate_Inr_iff] have k: "self_api_key p = strip key" and ne: "strip key \<noteq> []"
    and cc: "set key \<inter> {0x0A, 0x0D, 0x09, 0x0B, 0x0C} = {}"
    and dq: "\<not> (hd (strip key) = 0x22 \<and> last (strip key) = 0x22)"
    and sq: "\<not> (hd (strip key) = 0x27 \<and> last (strip key) = 0x27)"
    and pre: "startswith (strip key) (cps ''sk-ant-'')"
    by (blast+)
  have "set (strip key) \<inter> {0x0A, 0x0D, 0x09, 0x0B, 0x0C} = {}"
    using cc set_strip [of key] by blast
  with ne dq sq pre strip_ends [OF ne] strip_strip [of key] show ?thesis
    unfolding k by (intro conjI)
qed

text \<open>
  A construction that succeeds: no explicit key, no store, and \<open>"  sk-ant-abc123  "\<close> in
  the environment.
\<close>

theorem constructed_key_invariant_witness:
  "fst (AnthropicProvider_init (world_no_store (Some (cps ''  sk-ant-abc123  ''))) None
          default_model) =
     Inr \<lparr>self_api_key = cps ''sk-ant-abc123'', self_model = default_model,
          self_provider = ()\<rparr> \<and>
   startswith (cps ''sk-ant-abc123'') (cps ''sk-ant-'') \<and>
   strip (cps ''sk-ant-abc123'') = cps ''sk-ant-abc123''"
proof -
  have h: "fst (AnthropicProvider_init (world_no_store (Some (cps ''  sk-ant-abc123  ''))) None
          default_model) =
     Inr \<lparr>self_api_key = cps ''sk-ant-abc123'', self_model = default_model,
          self_provider = ()\<rparr>"
    by (simp add: AnthropicProvider_init_def raw_api_key_def py_not_def
        get_api_key_from_credential_store_def try_block_def world_no_store_def
        validate_api_key_def strip_def isspace_def cps_def control_characters_def
        startswith_def endswith_def double_quote_def single_quote_def)
  from constructed_key_invariant [OF h] h show ?thesis by simp
qed

text \<open>
  C4. When no explicit key is given and the store and the environment yield no key (the
  lookup returns \<open>None\<close>), the construction fails with \<open>MissingCredential\<close>, and so with
  none of the validator's failures.
\<close>

theorem missing_credential:
  assumes "fst (get_api_key_from_credential_store w) = Inr None"
  shows "fst (AnthropicProvider_init w None model) = Inl MissingCredential \<and>
         fst (AnthropicProvider_init w None model) \<noteq> Inl EmptyOrWhitespace \<and>
         fst (AnthropicProvider_init w None model) \<noteq> Inl ControlCharacters \<and>
         fst (AnthropicProvider_init w None model) \<noteq> Inl QuotedKey \<and>
         (\<forall>x. fst (AnthropicProvider_init w None model) \<noteq> Inl (UnexpectedFormat x))"
proof -
  from assms obtain t where "get_api_key_from_credential_store w = (Inr None, t)"
    by (cases "get_api_key_from_credential_store w") simp
  then have "fst (AnthropicProvider_init w None model) = Inl MissingCredential"
    by (simp add: AnthropicProvider_init_def raw_api_key_def py_not_def)
  then show ?thesis by simp
qed

text \<open>
  No explicit key, no store and an empty environment.
\<close>

theorem missing_credential_witness:
  "fst (get_api_key_from_credential_store (world_no_store None)) = Inr None \<and>
   fst (AnthropicProvider_init (world_no_store None) None default_model) =
     Inl MissingCredential"
proof -
  have h: "fst (get_api_key_from_credential_store (world_no_store None)) = Inr None"
    by code_simp
  from missing_credential [OF h, of default_model] h show ?thesis by (intro conjI) simp_all
qed

text \<open>
  C10. When no explicit key is given, the store yields nothing (the \<open>try\<close> block reaches
  its end, or raises \<open>ImportError\<close>) and \<open>ANTHROPIC_API_KEY\<close> is set to the empty string,
  the construction fails with \<open>MissingCredential\<close> and not with \<open>EmptyOrWhitespace\<close>,
  the error the validator gives on the empty string: the empty value never reaches it.
\<close>

theorem empty_environment_value_is_absence:
  assumes "fst (try_block w) = Fallthrough \<or> fst (try_block w) = Raise ImportError"
    and "environ w (cps ''ANTHROPIC_API_KEY'') = Some []"
  shows "fst (AnthropicProvider_init w None model) = Inl MissingCredential \<and>
         fst (AnthropicProvider_init w None model) \<noteq> Inl EmptyOrWhitespace \<and>
         validate_api_key [] = Inl EmptyOrWhitespace"
proof -
  obtain f t where ft: "try_block w = (f, t)"
    by (cases "try_block w")
  with assms have "get_api_key_from_credential_store w =
      (Inr (Some []), t @ [EnvironGet (cps ''ANTHROPIC_API_KEY'')])"
    by (auto simp: get_api_key_from_credential_store_def)
  then have "fst (AnthropicProvider_init w None model) = Inl MissingCredential"
    by (simp add: AnthropicProvider_init_def raw_api_key_def py_not_def)
  moreover have "validate_api_key [] = Inl EmptyOrWhitespace"
    by (simp add: validate_api_key_def)
  ultimately show ?thesis by simp
qed

text \<open>
  The empty string in the environment, once without a store and once with a store that
  reports the credential unavailable.
\<close>

theorem empty_environment_value_is_absence_witness:
  "fst (try_block (world_no_store (Some []))) = Raise ImportError \<and>
   environ (world_no_store (Some [])) (cps ''ANTHROPIC_API_KEY'') = Some [] \<and>
   fst (try_block (world_with_store False None (Some []))) = Fallthrough \<and>
   environ (world_with_store False None (Some [])) (cps ''ANTHROPIC_API_KEY'') = Some [] \<and>
   fst (AnthropicProvider_init (world_no_store (Some [])) None default_model) =
     Inl MissingCredential \<and>
   fst (AnthropicProvider_init (world_with_store False None (Some [])) None default_model) =
     Inl MissingCredential"
proof -
  have a1: "fst (try_block (world_no_store (Some []))) = Raise ImportError"
    by (simp add: try_block_def world_no_store_def)
  have a2: "environ (world_no_store (Some [])) (cps ''ANTHROPIC_API_KEY'') = Some []"
    by (simp add: world_no_store_def)
  have b1: "fst (try_block (world_with_store False None (Some []))) = Fallthrough"
    by (simp add: try_block_def world_with_store_def example_store_def)
  have b2: "environ (world_with_store False None (Some [])) (cps ''ANTHROPIC_API_KEY'') = Some []"
    by (simp add: world_with_store_def)
  from empty_environment_value_is_absence [OF disjI2 [OF a1] a2, of default_model]
    empty_environment_value_is_absence [OF disjI1 [OF b1] b2, of default_model]
    a1 a2 b1 b2
  show ?thesis by (intro conjI) simp_all
qed

section \<open>Claims about the resolver\<close>

text \<open>
  C9. When no explicit key is given and importing the credential store raises
  \<open>ImportError\<close>, the resolver does not raise: it returns what the environment holds under
  \<open>ANTHROPIC_API_KEY\<close> (\<open>None\<close> when the variable is unset), after the import attempt
  and one environment lookup.
\<close>

theorem import_error_falls_back_to_environment:
  assumes "import_CredentialStoreAdapter w = Inl ImportError"
  shows "raw_api_key w None =
           (Inr (environ w (cps ''ANTHROPIC_API_KEY'')),
            [ImportAdapter, EnvironGet (cps ''ANTHROPIC_API_KEY'')]) \<and>
         get_api_key_from_credential_store w =
           (Inr (environ w (cps ''ANTHROPIC_API_KEY'')),
            [ImportAdapter, EnvironGet (cps ''ANTHROPIC_API_KEY'')])"
  using assms
  by (simp add: raw_api_key_def py_not_def get_api_key_from_credential_store_def try_block_def)

text \<open>
  The store cannot be imported; the variable is set in one world and unset in the other.
\<close>

theorem import_error_falls_back_to_environment_witness:
  "import_CredentialStoreAdapter (world_no_store (Some (cps ''sk-ant-abc123''))) =
     Inl ImportError \<and>
   fst (raw_api_key (world_no_store (Some (cps ''sk-ant-abc123''))) None) =
     Inr (Some (cps ''sk-ant-abc123'')) \<and>
   import_CredentialStoreAdapter (world_no_store None) = Inl ImportError \<and>
   fst (raw_api_key (world_no_store None) None) = Inr None"
proof -
  have a: "import_CredentialStoreAdapter (world_no_store (Some (cps ''sk-ant-abc123''))) =
      Inl ImportError"
    by (simp add: world_no_store_def)
  have b: "import_CredentialStoreAdapter (world_no_store None) = Inl ImportError"
    by (simp add: world_no_store_def)
  have ea: "environ (world_no_store (Some (cps ''sk-ant-abc123''))) (cps ''ANTHROPIC_API_KEY'') =
      Some (cps ''sk-ant-abc123'')"
    by (simp add: world_no_store_def)
  have eb: "environ (world_no_store None) (cps ''ANTHROPIC_API_KEY'') = None"
    by (simp add: world_no_store_def)
  from import_error_falls_back_to_environment [OF a]
    import_error_falls_back_to_environment [OF b] a b
  show ?thesis by (simp add: ea eb)
qed

text \<open>
  C2, as stated, fails: with an importable store that reports \<open>anthropic\<close> available and
  whose \<open>get\<close> returns \<open>None\<close>, and with \<open>ANTHROPIC_API_KEY\<close> set, the lookup returns
  \<open>None\<close> and never reads the environment.
\<close>

theorem available_store_without_value_counterexample:
  "import_CredentialStoreAdapter (world_with_store True None (Some (cps ''sk-ant-abc123''))) =
     Inr () \<and>
   CredentialStoreAdapter_default (world_with_store True None (Some (cps ''sk-ant-abc123''))) =
     Inr (example_store True None) \<and>
   is_available (example_store True None) (cps ''anthropic'') = Inr True \<and>
   get (example_store True None) (cps ''anthropic'') = Inr None \<and>
   environ (world_with_store True None (Some (cps ''sk-ant-abc123'')))
     (cps ''ANTHROPIC_API_KEY'') = Some (cps ''sk-ant-abc123'') \<and>
   get_api_key_from_credential_store
     (world_with_store True None (Some (cps ''sk-ant-abc123''))) =
     (Inr None, [ImportAdapter, CallDefault, CallIsAvailable (cps ''anthropic''),
        CallGet (cps ''anthropic'')]) \<and>
   fst (get_api_key_from_credential_store
     (world_with_store True None (Some (cps ''sk-ant-abc123'')))) \<noteq>
     Inr (environ (world_with_store True None (Some (cps ''sk-ant-abc123'')))
       (cps ''ANTHROPIC_API_KEY''))"
  by (simp add: world_with_store_def example_store_def get_api_key_from_credential_store_def
      try_block_def)

text \<open>
  C2, amended. For every importable credential store: if the store reports the credential
  not available under \<open>anthropic\<close>, the lookup falls back to reading
  \<open>ANTHROPIC_API_KEY\<close> and returns that environment value; if the store reports it
  available, the lookup returns what \<open>get\<close> returns, also when that is no value, and does
  not read the environment.
\<close>

theorem store_gate:
  assumes "import_CredentialStoreAdapter w = Inr u"
    and "CredentialStoreAdapter_default w = Inr creds"
  shows "(is_available creds (cps ''anthropic'') = Inr False \<longrightarrow>
            get_api_key_from_credential_store w =
              (Inr (environ w (cps ''ANTHROPIC_API_KEY'')),
               [ImportAdapter, CallDefault, CallIsAvailable (cps ''anthropic''),
                EnvironGet (cps ''ANTHROPIC_API_KEY'')])) \<and>
         (is_available creds (cps ''anthropic'') = Inr True \<and>
          get creds (cps ''anthropic'') = Inr v \<longrightarrow>
            get_api_key_from_credential_store w =
              (Inr v, [ImportAdapter, CallDefault, CallIsAvailable (cps ''anthropic''),
                CallGet (cps ''anthropic'')]))"
  using assms
  by (simp add: get_api_key_from_credential_store_def try_block_def)

text \<open>
  A store that reports the credential unavailable, and a store that holds a value; the
  environment variable is set in both worlds.
\<close>

theorem store_gate_witness:
  "is_available (example_store False None) (cps ''anthropic'') = Inr False \<and>
   fst (get_api_key_from_credential_store
          (world_with_store False None (Some (cps ''sk-ant-abc123'')))) =
     Inr (Some (cps ''sk-ant-abc123'')) \<and>
   is_available (example_store True (Some (cps ''sk-ant-stored''))) (cps ''anthropic'') =
     Inr True \<and>
   get (example_store True (Some (cps ''sk-ant-stored''))) (cps ''anthropic'') =
     Inr (Some (cps ''sk-ant-stored'')) \<and>
   fst (get_api_key_from_credential_store
          (world_with_store True (Some (cps ''sk-ant-stored'')) (Some (cps ''sk-ant-abc123'')))) =
     Inr (Some (cps ''sk-ant-stored''))"
proof -
  let ?w1 = "world_with_store False None (Some (cps ''sk-ant-abc123''))"
  let ?w2 = "world_with_store True (Some (cps ''sk-ant-stored'')) (Some (cps ''sk-ant-abc123''))"
  have i1: "import_CredentialStoreAdapter ?w1 = Inr ()"
    and d1: "CredentialStoreAdapter_default ?w1 = Inr (example_store False None)"
    and e1: "environ ?w1 (cps ''ANTHROPIC_API_KEY'') = Some (cps ''sk-ant-abc123'')"
    and i2: "import_CredentialStoreAdapter ?w2 = Inr ()"
    and d2: "CredentialStoreAdapter_default ?w2 =
      Inr (example_store True (Some (cps ''sk-ant-stored'')))"
    by (simp_all add: world_with_store_def)
  have a1: "is_available (example_store False None) (cps ''anthropic'') = Inr False"
    and a2: "is_available (example_store True (Some (cps ''sk-ant-stored''))) (cps ''anthropic'')
      = Inr True"
    and g2: "get (example_store True (Some (cps ''sk-ant-stored''))) (cps ''anthropic'') =
      Inr (Some (cps ''sk-ant-stored''))"
    by (simp_all add: example_store_def)
  from store_gate [OF i1 d1] a1
  have r1: "fst (get_api_key_from_credential_store ?w1) = Inr (Some (cps ''sk-ant-abc123''))"
    by (simp add: e1)
  from store_gate [OF i2 d2, of "Some (cps ''sk-ant-stored'')"] a2 g2
  have r2: "fst (get_api_key_from_credential_store ?w2) = Inr (Some (cps ''sk-ant-stored''))"
    by simp
  from a1 r1 a2 g2 r2 show ?thesis by (intro conjI)
qed

text \<open>
  C1, as stated, fails for the empty string: with the explicit key \<open>""\<close> and
  \<open>ANTHROPIC_API_KEY\<close> set, the resolver does the lookup and returns the environment value,
  and the provider is constructed with it.
\<close>

theorem empty_explicit_key_counterexample:
  "raw_api_key (world_no_store (Some (cps ''sk-ant-abc123''))) (Some []) =
     (Inr (Some (cps ''sk-ant-abc123'')),
      [ImportAdapter, EnvironGet (cps ''ANTHROPIC_API_KEY'')]) \<and>
   raw_api_key (world_no_store (Some (cps ''sk-ant-abc123''))) (Some []) \<noteq>
     (Inr (Some []), []) \<and>
   fst (AnthropicProvider_init (world_no_store (Some (cps ''sk-ant-abc123''))) (Some [])
          default_model) =
     Inr \<lparr>self_api_key = cps ''sk-ant-abc123'', self_model = default_model,
          self_provider = ()\<rparr>"
  by (simp add: AnthropicProvider_init_def raw_api_key_def py_not_def
      get_api_key_from_credential_store_def try_block_def world_no_store_def
      validate_api_key_def strip_def isspace_def cps_def control_characters_def
      startswith_def endswith_def double_quote_def single_quote_def)

text \<open>
  C1, amended. For every store and environment, a non-empty explicit key is what the
  resolver returns, and no store or environment lookup happens; an empty explicit key is
  treated as no key: the resolver then does the store and environment lookup.
\<close>

theorem explicit_key_wins:
  "(k \<noteq> [] \<longrightarrow> raw_api_key w (Some k) = (Inr (Some k), [])) \<and>
   raw_api_key w (Some []) = get_api_key_from_credential_store w"
  by (simp add: raw_api_key_def py_not_def)

text \<open>
  An explicit key wins over a store that holds a value and an environment variable that
  is set.
\<close>

theorem explicit_key_wins_witness:
  "cps ''sk-ant-explicit'' \<noteq> [] \<and>
   raw_api_key
     (world_with_store True (Some (cps ''sk-ant-stored'')) (Some (cps ''sk-ant-abc123'')))
     (Some (cps ''sk-ant-explicit'')) = (Inr (Some (cps ''sk-ant-explicit'')), [])"
proof -
  have h: "cps ''sk-ant-explicit'' \<noteq> []" by (simp add: cps_def)
  from explicit_key_wins [of "cps ''sk-ant-explicit''"
      "world_with_store True (Some (cps ''sk-ant-stored'')) (Some (cps ''sk-ant-abc123''))"] h
  show ?thesis by blast
qed

end
